theory Spec2Isabelle
  imports Complex_Main
begin

section \<open>JavaScript values as the client sees them\<close>

text \<open>
  A decoded response body is an arbitrary JSON value; \<open>JUndefined\<close> is the value of a
  property that is not there. An object is an association list read with \<open>map_of\<close>;
  only lookups are meaningful, the order of the list is not. A number is taken as a
  real; the client only ever tests one for being zero.
\<close>

datatype json =
    JUndefined
  | JNull
  | JBool bool
  | JNum real
  | JStr string
  | JArr "json list"
  | JObj "(string \<times> json) list"

text \<open>\<open>!!v\<close>: the values JavaScript treats as false are undefined, null, false, 0 and "".\<close>

fun truthy :: "json \<Rightarrow> bool" where
  "truthy JUndefined = False"
| "truthy JNull = False"
| "truthy (JBool b) = b"
| "truthy (JNum n) = (n \<noteq> 0)"
| "truthy (JStr s) = (s \<noteq> [])"
| "truthy (JArr xs) = True"
| "truthy (JObj kvs) = True"

text \<open>\<open>a || b\<close>\<close>

definition js_or :: "json \<Rightarrow> json \<Rightarrow> json" where
  "js_or a b = (if truthy a then a else b)"

text \<open>
  \<open>v.k\<close> for a value \<open>v\<close> that is neither null nor undefined, and a key \<open>k\<close> that is
  neither \<open>length\<close> nor an index (the client reads \<open>detail\<close> and \<open>message\<close>, the
  theorems below read \<open>success\<close>, \<open>response\<close>, \<open>thread_id\<close> and \<open>message\<close>): only an
  object has such a property.
\<close>

fun get_prop :: "json \<Rightarrow> string \<Rightarrow> json" where
  "get_prop (JObj kvs) k = (case map_of kvs k of Some v \<Rightarrow> v | None \<Rightarrow> JUndefined)"
| "get_prop v k = JUndefined"

text \<open>\<open>v?.k\<close>\<close>

fun opt_chain :: "json \<Rightarrow> string \<Rightarrow> json" where
  "opt_chain JUndefined k = JUndefined"
| "opt_chain JNull k = JUndefined"
| "opt_chain v k = get_prop v k"

text \<open>The decimal numeral of an index, as a property key.\<close>

fun decimal :: "nat \<Rightarrow> string" where
  "decimal n =
     (if n < 10 then [char_of (48 + n)]
      else decimal (n div 10) @ [char_of (48 + n mod 10)])"

declare decimal.simps [simp del]

text \<open>
  The own enumerable properties that \<open>{...v}\<close> copies: those of an object, the
  indexed characters of a string, the indexed elements of an array, none otherwise.
\<close>

fun own_props :: "json \<Rightarrow> (string \<times> json) list" where
  "own_props (JObj kvs) = kvs"
| "own_props (JStr s) = zip (map decimal [0..<length s]) (map (\<lambda>c. JStr [c]) s)"
| "own_props (JArr xs) = zip (map decimal [0..<length xs]) xs"
| "own_props v = []"

text \<open>Writing a property in an object literal: replaces the value of a key, or adds the key.\<close>

fun set_prop :: "string \<Rightarrow> json \<Rightarrow> (string \<times> json) list \<Rightarrow> (string \<times> json) list" where
  "set_prop k v [] = [(k, v)]"
| "set_prop k v ((k', v') # kvs) =
     (if k' = k then (k, v) # kvs else (k', v') # set_prop k v kvs)"


section \<open>The transport\<close>

text \<open>
  What the \<open>catch\<close> block looks at in the thrown value: whether it is an axios error,
  and its \<open>response\<close>, given here by the response's \<open>data\<close> (\<open>None\<close>: no response).
\<close>

record thrown =
  isAxiosError :: bool
  response :: "json option"

text \<open>\<open>await aiApiClient.post(...)\<close> either yields a response, given by its \<open>data\<close>, or throws.\<close>

datatype transport = Resolved json | Rejected thrown

text \<open>A \<open>post\<close> takes the path, the body and the headers of the request configuration.\<close>

type_synonym 'd post = "string \<Rightarrow> 'd \<Rightarrow> (string \<times> string) list \<Rightarrow> transport"

definition always :: "transport \<Rightarrow> 'd post" where
  "always t = (\<lambda>url body headers. t)"


section \<open>The four operations of aiapi.ts\<close>

datatype 'f form_value = FileValue 'f | TextValue string

definition generateQuestionsFromDocumentAI ::
  "(string \<times> 'f form_value) list post \<Rightarrow> 'f list \<Rightarrow> string option \<Rightarrow> bool option \<Rightarrow> json" where
  "generateQuestionsFromDocumentAI post files userInstructions literalMode =
     (let formData =
            map (\<lambda>file. (''files'', FileValue file)) files
            @ (case userInstructions of
                 Some s \<Rightarrow> if s \<noteq> [] then [(''user_instructions'', TextValue s)] else []
               | None \<Rightarrow> [])
            @ [(''literal_mode'',
                TextValue (if literalMode = Some True then ''true'' else ''false''))]
      in case post ''/api/ai/generate-questions-from-document'' formData
                [(''Content-Type'', ''multipart/form-data'')] of
           Resolved data \<Rightarrow> data
         | Rejected error \<Rightarrow>
             (case (isAxiosError error, response error) of
                (True, Some data) \<Rightarrow>
                  js_or data
                    (JObj [(''success'', JBool False),
                           (''data'', JNull),
                           (''message'',
                            js_or (opt_chain data ''detail'')
                              (js_or (opt_chain data ''message'')
                                 (JStr ''An unexpected error occurred with the AI service.'')))])
              | _ \<Rightarrow>
                  JObj [(''success'', JBool False),
                        (''data'', JNull),
                        (''message'',
                         JStr ''Failed to connect to the AI service or an unexpected error occurred.'')]))"

definition generateQuestionsFromTextAI ::
  "json post \<Rightarrow> string \<Rightarrow> string option \<Rightarrow> bool option \<Rightarrow> json" where
  "generateQuestionsFromTextAI post rawText userInstructions literalMode =
     (let payload =
            JObj [(''raw_text'', JStr rawText),
                  (''user_instructions'',
                   case userInstructions of Some s \<Rightarrow> JStr s | None \<Rightarrow> JUndefined),
                  (''literal_mode'', JBool (literalMode = Some True))]
      in case post ''/api/ai/generate-questions-from-text'' payload [] of
           Resolved data \<Rightarrow> data
         | Rejected error \<Rightarrow>
             (case (isAxiosError error, response error) of
                (True, Some data) \<Rightarrow>
                  js_or data
                    (JObj [(''success'', JBool False),
                           (''data'', JNull),
                           (''message'',
                            js_or (opt_chain data ''detail'')
                              (js_or (opt_chain data ''message'')
                                 (JStr ''An unexpected error occurred with the AI service.'')))])
              | _ \<Rightarrow>
                  JObj [(''success'', JBool False),
                        (''data'', JNull),
                        (''message'',
                         JStr ''Failed to connect to the AI service or an unexpected error occurred.'')]))"

record ExplanationRequestPayload =
  questionText :: string
  options :: "string list"
  correctAnswerIndex :: int
  originalExplanation :: "string option"
  userQuery :: string
  targetOptionText :: "string option"

definition explainAnswerChoiceAI ::
  "ExplanationRequestPayload post \<Rightarrow> ExplanationRequestPayload \<Rightarrow> json" where
  "explainAnswerChoiceAI post payload =
     (case post ''/api/ai/explain-answer-choice'' payload [] of
        Resolved data \<Rightarrow> data
      | Rejected error \<Rightarrow>
          (case (isAxiosError error, response error) of
             (True, Some data) \<Rightarrow>
               js_or data
                 (JObj [(''success'', JBool False),
                        (''explanation'', JNull),
                        (''message'',
                         js_or (opt_chain data ''detail'')
                           (js_or (opt_chain data ''message'')
                              (JStr ''An unexpected error with the AI explanation service.'')))])
           | _ \<Rightarrow>
               JObj [(''success'', JBool False),
                     (''explanation'', JNull),
                     (''message'',
                      JStr ''Failed to connect to the AI explanation service or an unexpected error occurred.'')]))"

datatype chat_role = User | Ai

record AIChatMessage =
  role :: chat_role
  content :: string

text \<open>\<open>thread_id?: string | null\<close>\<close>

datatype 'a nullable = Undefined | Null | Given 'a

record AIChatRequestPayload =
  message :: string
  history :: "AIChatMessage list option"
  thread_id :: "string nullable"

definition sendChatMessageToAI ::
  "AIChatRequestPayload post \<Rightarrow> AIChatRequestPayload \<Rightarrow> json" where
  "sendChatMessageToAI post payload =
     (case post ''/api/ai-chat'' payload [] of
        Resolved data \<Rightarrow> JObj (set_prop ''success'' (JBool True) (own_props data))
      | Rejected error \<Rightarrow>
          (let defaultErrorMsg = JStr ''An unexpected error occurred with the AI chat service.'';
               errorMessage =
                 (case (isAxiosError error, response error) of
                    (True, Some data) \<Rightarrow>
                      if truthy data
                      then js_or (get_prop data ''detail'')
                             (js_or (get_prop data ''message'') defaultErrorMsg)
                      else defaultErrorMsg
                  | _ \<Rightarrow> defaultErrorMsg)
           in JObj [(''success'', JBool False),
                    (''response'', JStr ''''),
                    (''thread_id'',
                     JStr (case thread_id payload of
                             Given s \<Rightarrow> if s \<noteq> [] then s else ''''
                           | _ \<Rightarrow> '''')),
                    (''message'', errorMessage)]))"


section \<open>The media viewer: resolving the URL\<close>

text \<open>The descriptor handed to \<open>MediaDisplay\<close>; an absent property is \<open>None\<close>.\<close>

record media =
  path :: "string option"
  mimetype :: "string option"
  mtype :: "string option"
  originalname :: "string option"

text \<open>\<open>s.startsWith(p)\<close>\<close>

fun starts_with :: "string \<Rightarrow> string \<Rightarrow> bool" where
  "starts_with s [] = True"
| "starts_with [] (p # ps) = False"
| "starts_with (c # cs) (p # ps) = (c = p \<and> starts_with cs ps)"

text \<open>\<open>s.includes(sub)\<close>\<close>

fun includes_str :: "string \<Rightarrow> string \<Rightarrow> bool" where
  "includes_str [] sub = starts_with [] sub"
| "includes_str (c # cs) sub = (starts_with (c # cs) sub \<or> includes_str cs sub)"

text \<open>
  One alternative of the regular expression tried at the start of \<open>s\<close>: the literal,
  then the group \<open>([^&]+)\<close>, which takes every character up to the next \<open>&\<close> and
  needs at least one.
\<close>

definition try_alt :: "string \<Rightarrow> string \<Rightarrow> string option" where
  "try_alt lit s =
     (if starts_with s lit
      then (let capture = takeWhile (\<lambda>c. c \<noteq> CHR ''&'') (drop (length lit) s)
            in if capture \<noteq> [] then Some capture else None)
      else None)"

text \<open>\<open>(?:youtube\.com\/watch\?v=|youtu\.be\/)([^&]+)\<close> tried at the start of \<open>s\<close>.\<close>

definition match_here :: "string \<Rightarrow> string option" where
  "match_here s =
     (case try_alt ''youtube.com/watch?v='' s of
        Some capture \<Rightarrow> Some capture
      | None \<Rightarrow> try_alt ''youtu.be/'' s)"

text \<open>
  \<open>rawUrl.match(...)\<close>: the leftmost position where the expression matches; the
  result is the first group (\<open>ytMatch[1]\<close>), \<open>None\<close> when there is no match.
\<close>

fun yt_match :: "string \<Rightarrow> string option" where
  "yt_match [] = match_here []"
| "yt_match (c # cs) =
     (case match_here (c # cs) of
        Some capture \<Rightarrow> Some capture
      | None \<Rightarrow> yt_match cs)"

definition resolveMediaUrl :: "media \<Rightarrow> string option" where
  "resolveMediaUrl m =
     (case path m of
        None \<Rightarrow> None
      | Some rawUrl \<Rightarrow>
          if rawUrl = [] then None
          else (case yt_match rawUrl of
                  Some capture \<Rightarrow> Some (''https://www.youtube.com/embed/'' @ capture)
                | None \<Rightarrow> Some rawUrl))"


section \<open>The media viewer: state and handlers\<close>

text \<open>Coordinates and lengths are JavaScript numbers, taken here as real numbers.\<close>

record point =
  px :: real
  py :: real

record dims =
  width :: real
  height :: real

record viewer_state =
  isModalOpen :: bool
  position :: point
  size_st :: dims
  isDragging :: bool
  isResizing :: bool
  dragStart :: point
  resizeStart :: dims
  error :: "string option"
  iframeError :: bool

text \<open>The values of the \<open>useState\<close> calls.\<close>

definition initial :: viewer_state where
  "initial =
     \<lparr>isModalOpen = False,
      position = \<lparr>px = 0, py = 0\<rparr>,
      size_st = \<lparr>width = 800, height = 600\<rparr>,
      isDragging = False,
      isResizing = False,
      dragStart = \<lparr>px = 0, py = 0\<rparr>,
      resizeStart = \<lparr>width = 0, height = 0\<rparr>,
      error = None,
      iframeError = False\<rparr>"

text \<open>
  What a handler reads from the browser: the viewport, and the bounding rectangle of
  \<open>modalRef.current\<close> (\<open>None\<close> while the reference is null).
\<close>

record browser =
  innerWidth :: real
  innerHeight :: real
  modalRect :: "dims option"

text \<open>
  What a handler reads from a mouse event: the pointer, and where the target lies
  (\<open>contentRef.current?.contains(e.target)\<close>, \<open>e.target.closest('button')\<close>,
  \<open>e.target.closest('.resize-handle')\<close>, \<open>modalRef.current.contains(e.target)\<close>).
\<close>

record mouse =
  clientX :: real
  clientY :: real
  inContent :: bool
  inButton :: bool
  inResizeHandle :: bool
  inModal :: bool

definition handleOpenModal :: "browser \<Rightarrow> viewer_state \<Rightarrow> viewer_state" where
  "handleOpenModal b s =
     s\<lparr>isModalOpen := True,
       position := \<lparr>px = innerWidth b / 8, py = innerHeight b / 8\<rparr>,
       size_st := \<lparr>width = 800, height = 600\<rparr>,
       error := None\<rparr>"

definition handleCloseModal :: "viewer_state \<Rightarrow> viewer_state" where
  "handleCloseModal s =
     s\<lparr>isModalOpen := False, isDragging := False, isResizing := False, error := None\<rparr>"

definition handleClickOutside :: "browser \<Rightarrow> mouse \<Rightarrow> viewer_state \<Rightarrow> viewer_state" where
  "handleClickOutside b e s =
     (if modalRect b \<noteq> None \<and> \<not> inModal e then handleCloseModal s else s)"

definition handleMouseDown :: "mouse \<Rightarrow> viewer_state \<Rightarrow> viewer_state" where
  "handleMouseDown e s =
     (if inContent e \<or> inButton e \<or> inResizeHandle e then s
      else s\<lparr>isDragging := True,
             dragStart := \<lparr>px = clientX e - px (position s),
                           py = clientY e - py (position s)\<rparr>\<rparr>)"

definition handleMouseMove :: "browser \<Rightarrow> mouse \<Rightarrow> viewer_state \<Rightarrow> viewer_state" where
  "handleMouseMove b e s =
     (if isDragging s then
        (let newX = clientX e - px (dragStart s);
             newY = clientY e - py (dragStart s)
         in case modalRect b of
              Some rect \<Rightarrow>
                (let maxX = innerWidth b - width rect;
                     maxY = innerHeight b - height rect
                 in s\<lparr>position := \<lparr>px = max 0 (min newX maxX),
                                     py = max 0 (min newY maxY)\<rparr>\<rparr>)
            | None \<Rightarrow> s)
      else if isResizing s then
        (let newWidth = max 300 (width (resizeStart s) + (clientX e - px (dragStart s)));
             newHeight = max 200 (height (resizeStart s) + (clientY e - py (dragStart s)))
         in s\<lparr>size_st := \<lparr>width = newWidth, height = newHeight\<rparr>\<rparr>)
      else s)"

definition handleMouseUp :: "viewer_state \<Rightarrow> viewer_state" where
  "handleMouseUp s = s\<lparr>isDragging := False, isResizing := False\<rparr>"

definition handleResizeMouseDown :: "mouse \<Rightarrow> viewer_state \<Rightarrow> viewer_state" where
  "handleResizeMouseDown e s =
     s\<lparr>isResizing := True,
       dragStart := \<lparr>px = clientX e, py = clientY e\<rparr>,
       resizeStart := \<lparr>width = width (size_st s), height = height (size_st s)\<rparr>\<rparr>"


section \<open>The media viewer: rendering\<close>

text \<open>
  What \<open>renderMedia\<close> returns: the element and the attributes computed from the
  descriptor (\<open>src\<close> or \<open>href\<close>, which is \<open>url\<close>; then the \<open>alt\<close> text, the link text,
  or whether the refusal notice of an embedded site is shown).
\<close>

datatype rendered =
    YouTubeFrame "string option"
  | WebsiteFrame "string option" bool
  | Image "string option" string
  | Video "string option"
  | PdfEmbed "string option"
  | DocumentLink "string option" string
  | MediaLink "string option" string

text \<open>\<open>url?.includes('youtube.com/embed/')\<close>\<close>

definition isYouTube :: "media \<Rightarrow> bool" where
  "isYouTube m =
     (case resolveMediaUrl m of
        None \<Rightarrow> False
      | Some url \<Rightarrow> includes_str url ''youtube.com/embed/'')"

definition isWebsite :: "media \<Rightarrow> bool" where
  "isWebsite m = (mimetype m = Some ''text/url'' \<or> mtype m = Some ''url'')"

text \<open>\<open>media.mimetype?.startsWith(p)\<close>, as a condition\<close>

definition mimetype_startsWith :: "media \<Rightarrow> string \<Rightarrow> bool" where
  "mimetype_startsWith m p =
     (case mimetype m of None \<Rightarrow> False | Some t \<Rightarrow> starts_with t p)"

text \<open>\<open>media.originalname || fallback\<close>\<close>

definition originalname_or :: "media \<Rightarrow> string \<Rightarrow> string" where
  "originalname_or m fallback =
     (case originalname m of
        None \<Rightarrow> fallback
      | Some n \<Rightarrow> if n \<noteq> [] then n else fallback)"

definition renderMedia :: "media \<Rightarrow> viewer_state \<Rightarrow> rendered" where
  "renderMedia m s =
     (let url = resolveMediaUrl m in
      if isYouTube m then YouTubeFrame url
      else if isWebsite m then WebsiteFrame url (iframeError s)
      else if mimetype_startsWith m ''image/'' then Image url (originalname_or m ''Image'')
      else if mimetype_startsWith m ''video/'' then Video url
      else if mimetype_startsWith m ''application/pdf'' then PdfEmbed url
      else if mimetype_startsWith m ''application/msword''
              \<or> mimetype_startsWith m ''application/vnd.openxmlformats-officedocument''
           then DocumentLink url (originalname_or m ''Download Document'')
      else MediaLink url (originalname_or m ''Download Media''))"

text \<open>
  The modal as rendered while open: its inline geometry, its title, and its content,
  which is the error text when there is one and the rendered media otherwise.
\<close>

record modal_view =
  style_left :: real
  style_top :: real
  style_width :: real
  style_height :: real
  title :: string
  content :: "string + rendered"

record rendering =
  button_label :: string
  modal :: "modal_view option"

text \<open>
  The modal's inline style also sets \<open>maxWidth: '90vw'\<close> and \<open>maxHeight: '90vh'\<close>: the
  box that \<open>modalRef\<close> measures is no larger than nine tenths of the viewport in each
  direction.
\<close>

definition maxWidth :: "browser \<Rightarrow> real" where
  "maxWidth b = 90 / 100 * innerWidth b"

definition maxHeight :: "browser \<Rightarrow> real" where
  "maxHeight b = 90 / 100 * innerHeight b"

text \<open>The component: \<open>None\<close> is \<open>return null\<close>.\<close>

definition MediaDisplay :: "media option \<Rightarrow> string option \<Rightarrow> viewer_state \<Rightarrow> rendering option" where
  "MediaDisplay media_prop label s =
     (case media_prop of
        None \<Rightarrow> None
      | Some m \<Rightarrow>
          if path m = None \<or> path m = Some [] then None
          else Some
            \<lparr>button_label =
               (case label of
                  None \<Rightarrow> ''View Media''
                | Some l \<Rightarrow> if l \<noteq> [] then l else ''View Media''),
             modal =
               (if isModalOpen s then
                  Some \<lparr>style_left = px (position s),
                        style_top = py (position s),
                        style_width = width (size_st s),
                        style_height = height (size_st s),
                        title = originalname_or m ''Media'',
                        content =
                          (case error s of
                             None \<Rightarrow> Inr (renderMedia m s)
                           | Some msg \<Rightarrow>
                               if msg \<noteq> [] then Inl msg else Inr (renderMedia m s))\<rparr>
                else None)\<rparr>)"


section \<open>The media viewer: events\<close>

text \<open>
  The events that reach a handler. The open button is rendered whenever the component
  renders; the modal, with its close button, its drag surface, its resize handle and
  the media element, is rendered only while \<open>isModalOpen\<close>, and the listeners on the
  document are attached only then. A press on the resize handle stops at the handle,
  a press on the content stops at the content, and neither reaches \<open>handleMouseDown\<close>.
\<close>

datatype event =
    OpenClick browser
  | CloseClick
  | DocumentMouseDown browser mouse
  | ModalMouseDown mouse
  | ResizeHandleMouseDown mouse
  | DocumentMouseMove browser mouse
  | DocumentMouseUp
  | MediaLoadError
  | FrameLoadedEmpty

text \<open>The \<open>onError\<close> and \<open>onLoad\<close> callbacks of the element that \<open>renderMedia\<close> returned.\<close>

definition onError :: "media \<Rightarrow> viewer_state \<Rightarrow> viewer_state" where
  "onError m s =
     (case renderMedia m s of
        Image src alt \<Rightarrow> s\<lparr>error := Some ''Failed to load image''\<rparr>
      | Video src \<Rightarrow> s\<lparr>error := Some ''Failed to load video''\<rparr>
      | PdfEmbed src \<Rightarrow> s\<lparr>error := Some ''Failed to load PDF''\<rparr>
      | _ \<Rightarrow> s)"

definition onLoadEmpty :: "media \<Rightarrow> viewer_state \<Rightarrow> viewer_state" where
  "onLoadEmpty m s =
     (case renderMedia m s of
        WebsiteFrame src shown \<Rightarrow> s\<lparr>iframeError := True\<rparr>
      | _ \<Rightarrow> s)"

fun dispatch :: "media \<Rightarrow> event \<Rightarrow> viewer_state \<Rightarrow> viewer_state" where
  "dispatch m (OpenClick b) s = handleOpenModal b s"
| "dispatch m CloseClick s = (if isModalOpen s then handleCloseModal s else s)"
| "dispatch m (DocumentMouseDown b e) s =
     (if isModalOpen s then handleClickOutside b e s else s)"
| "dispatch m (ModalMouseDown e) s = (if isModalOpen s then handleMouseDown e s else s)"
| "dispatch m (ResizeHandleMouseDown e) s =
     (if isModalOpen s then handleResizeMouseDown e s else s)"
| "dispatch m (DocumentMouseMove b e) s =
     (if isModalOpen s then handleMouseMove b e s else s)"
| "dispatch m DocumentMouseUp s = (if isModalOpen s then handleMouseUp s else s)"
| "dispatch m MediaLoadError s =
     (if isModalOpen s \<and> (error s = None \<or> error s = Some []) then onError m s else s)"
| "dispatch m FrameLoadedEmpty s =
     (if isModalOpen s \<and> (error s = None \<or> error s = Some []) then onLoadEmpty m s else s)"

text \<open>The state after a sequence of events, oldest first.\<close>

fun run :: "media \<Rightarrow> event list \<Rightarrow> viewer_state \<Rightarrow> viewer_state" where
  "run m [] s = s"
| "run m (ev # evs) s = run m evs (dispatch m ev s)"


text \<open>The lower bound on the size that every handler is meant to keep.\<close>

definition size_ok :: "viewer_state \<Rightarrow> bool" where
  "size_ok s = (300 \<le> width (size_st s) \<and> 200 \<le> height (size_st s))"


section \<open>Properties of the client\<close>

lemma map_of_set_prop: "map_of (set_prop k v kvs) k = Some v"
  by (induction kvs) auto

text \<open>
  C1, as amended. When the transport throws an axios error whose response carries a
  structured body (an object), the chat operation reports as \<open>message\<close> the body's
  \<open>detail\<close> when that is truthy, else the body's \<open>message\<close> when that is truthy, else
  its generic fallback string. The two question-generation operations and the
  explanation operation return the body itself, unchanged: the \<open>message\<close> of their
  result is whatever \<open>message\<close> the body has, and neither \<open>detail\<close> nor the generic
  fallback string is used.
\<close>

theorem structured_error_body:
  assumes "isAxiosError err" and "response err = Some (JObj body)"
  shows "generateQuestionsFromDocumentAI (always (Rejected err)) files userInstructions literalMode
           = JObj body
       \<and> generateQuestionsFromTextAI (always (Rejected err)) rawText userInstructions literalMode
           = JObj body
       \<and> explainAnswerChoiceAI (always (Rejected err)) explainPayload = JObj body
       \<and> get_prop (sendChatMessageToAI (always (Rejected err)) chatPayload) ''message''
           = (if truthy (get_prop (JObj body) ''detail'') then get_prop (JObj body) ''detail''
              else if truthy (get_prop (JObj body) ''message'') then get_prop (JObj body) ''message''
              else JStr ''An unexpected error occurred with the AI chat service.'')"
  using assms
  by (simp add: generateQuestionsFromDocumentAI_def generateQuestionsFromTextAI_def
      explainAnswerChoiceAI_def sendChatMessageToAI_def always_def js_or_def Let_def)

text \<open>The amended C1 at a body with both fields: the chat operation reports the detail.\<close>

theorem structured_error_body_witness:
  "isAxiosError \<lparr>isAxiosError = True,
                 response = Some (JObj [(''detail'', JStr ''Quota exceeded''),
                                        (''message'', JStr ''Rejected'')])\<rparr>
   \<and> response \<lparr>isAxiosError = True,
               response = Some (JObj [(''detail'', JStr ''Quota exceeded''),
                                      (''message'', JStr ''Rejected'')])\<rparr>
       = Some (JObj [(''detail'', JStr ''Quota exceeded''), (''message'', JStr ''Rejected'')])
   \<and> explainAnswerChoiceAI
         (always (Rejected \<lparr>isAxiosError = True,
                            response = Some (JObj [(''detail'', JStr ''Quota exceeded''),
                                                   (''message'', JStr ''Rejected'')])\<rparr>))
         \<lparr>questionText = ''Q'', options = [''a'', ''b''], correctAnswerIndex = 0,
          originalExplanation = None, userQuery = ''why'', targetOptionText = None\<rparr>
       = JObj [(''detail'', JStr ''Quota exceeded''), (''message'', JStr ''Rejected'')]
   \<and> get_prop
         (sendChatMessageToAI
            (always (Rejected \<lparr>isAxiosError = True,
                               response = Some (JObj [(''detail'', JStr ''Quota exceeded''),
                                                      (''message'', JStr ''Rejected'')])\<rparr>))
            \<lparr>message = ''hello'', history = None, thread_id = Undefined\<rparr>)
         ''message''
       = JStr ''Quota exceeded''"
  using structured_error_body
    [of "\<lparr>isAxiosError = True,
          response = Some (JObj [(''detail'', JStr ''Quota exceeded''),
                                 (''message'', JStr ''Rejected'')])\<rparr>"
        "[(''detail'', JStr ''Quota exceeded''), (''message'', JStr ''Rejected'')]"
        "[] :: unit list" None None "''text''"
        "\<lparr>questionText = ''Q'', options = [''a'', ''b''], correctAnswerIndex = 0,
          originalExplanation = None, userQuery = ''why'', targetOptionText = None\<rparr>"
        "\<lparr>message = ''hello'', history = None, thread_id = Undefined\<rparr>"]
  by simp

text \<open>
  C1 as stated fails for the document operation: with the body \<open>{detail, message}\<close>
  the result's \<open>message\<close> is the body's \<open>message\<close>, not its \<open>detail\<close>; with the body
  \<open>{detail}\<close> the result has no \<open>message\<close> at all.
\<close>

theorem structured_error_body_counterexample:
  "get_prop
     (generateQuestionsFromDocumentAI
        (always (Rejected \<lparr>isAxiosError = True,
                           response = Some (JObj [(''detail'', JStr ''Quota exceeded''),
                                                  (''message'', JStr ''Rejected'')])\<rparr>))
        ([] :: unit list) None None)
     ''message''
     \<noteq> JStr ''Quota exceeded''
   \<and> get_prop
       (generateQuestionsFromDocumentAI
          (always (Rejected \<lparr>isAxiosError = True,
                             response = Some (JObj [(''detail'', JStr ''Quota exceeded'')])\<rparr>))
          ([] :: unit list) None None)
       ''message''
     = JUndefined"
  by (simp add: generateQuestionsFromDocumentAI_def always_def js_or_def)

text \<open>
  C2, as amended. When the transport throws without any response, every operation
  returns \<open>success = false\<close>. The message of the two question-generation operations is
  "Failed to connect to the AI service or an unexpected error occurred.", that of the
  explanation operation is "Failed to connect to the AI explanation service or an
  unexpected error occurred.", and that of the chat operation is its one generic
  string, "An unexpected error occurred with the AI chat service.".
\<close>

theorem no_response_result:
  assumes "response err = None"
  shows "get_prop (generateQuestionsFromDocumentAI (always (Rejected err)) files userInstructions
                     literalMode) ''success'' = JBool False
       \<and> get_prop (generateQuestionsFromDocumentAI (always (Rejected err)) files userInstructions
                     literalMode) ''message''
           = JStr ''Failed to connect to the AI service or an unexpected error occurred.''
       \<and> get_prop (generateQuestionsFromTextAI (always (Rejected err)) rawText userInstructions
                     literalMode) ''success'' = JBool False
       \<and> get_prop (generateQuestionsFromTextAI (always (Rejected err)) rawText userInstructions
                     literalMode) ''message''
           = JStr ''Failed to connect to the AI service or an unexpected error occurred.''
       \<and> get_prop (explainAnswerChoiceAI (always (Rejected err)) explainPayload) ''success''
           = JBool False
       \<and> get_prop (explainAnswerChoiceAI (always (Rejected err)) explainPayload) ''message''
           = JStr ''Failed to connect to the AI explanation service or an unexpected error occurred.''
       \<and> get_prop (sendChatMessageToAI (always (Rejected err)) chatPayload) ''success''
           = JBool False
       \<and> get_prop (sendChatMessageToAI (always (Rejected err)) chatPayload) ''message''
           = JStr ''An unexpected error occurred with the AI chat service.''"
  using assms
  by (simp add: generateQuestionsFromDocumentAI_def generateQuestionsFromTextAI_def
      explainAnswerChoiceAI_def sendChatMessageToAI_def always_def js_or_def Let_def
      split: bool.splits)

text \<open>The amended C2 at an axios error without a response.\<close>

theorem no_response_result_witness:
  "response \<lparr>isAxiosError = True, response = None\<rparr> = None
   \<and> get_prop
       (generateQuestionsFromTextAI
          (always (Rejected \<lparr>isAxiosError = True, response = None\<rparr>)) ''some text'' None None)
       ''message''
     = JStr ''Failed to connect to the AI service or an unexpected error occurred.''
   \<and> get_prop
       (sendChatMessageToAI
          (always (Rejected \<lparr>isAxiosError = True, response = None\<rparr>))
          \<lparr>message = ''hello'', history = None, thread_id = Given ''t-1''\<rparr>)
       ''success''
     = JBool False"
  using no_response_result
    [of "\<lparr>isAxiosError = True, response = None\<rparr>" "[] :: unit list" None None "''some text''"
        "\<lparr>questionText = ''Q'', options = [], correctAnswerIndex = 0,
          originalExplanation = None, userQuery = ''why'', targetOptionText = None\<rparr>"
        "\<lparr>message = ''hello'', history = None, thread_id = Given ''t-1''\<rparr>"]
  by simp

text \<open>
  C2 as stated fails for the chat operation: without a response its message is the
  generic string, which does not begin with "Failed to connect" and is the very
  message it gives for a response whose body is an empty object.
\<close>

theorem no_response_result_counterexample:
  "get_prop
     (sendChatMessageToAI
        (always (Rejected \<lparr>isAxiosError = True, response = None\<rparr>))
        \<lparr>message = ''hello'', history = None, thread_id = Undefined\<rparr>)
     ''message''
     = JStr ''An unexpected error occurred with the AI chat service.''
   \<and> \<not> starts_with ''An unexpected error occurred with the AI chat service.'' ''Failed to connect''
   \<and> get_prop
       (sendChatMessageToAI
          (always (Rejected \<lparr>isAxiosError = True, response = None\<rparr>))
          \<lparr>message = ''hello'', history = None, thread_id = Undefined\<rparr>)
       ''message''
     = get_prop
         (sendChatMessageToAI
            (always (Rejected \<lparr>isAxiosError = True, response = Some (JObj [])\<rparr>))
            \<lparr>message = ''hello'', history = None, thread_id = Undefined\<rparr>)
         ''message''"
  by (simp add: sendChatMessageToAI_def always_def js_or_def)

text \<open>
  C3. Whatever the chat payload and whatever was thrown (with or without a response
  body), the result of \<open>sendChatMessageToAI\<close> has as \<open>thread_id\<close> the payload's thread
  id, or the empty string when the payload has none (undefined or null); it is a
  string, never undefined; and the result's \<open>response\<close> is the empty string.
\<close>

theorem chat_failure_echoes_thread_id:
  "get_prop (sendChatMessageToAI (always (Rejected err)) payload) ''thread_id''
     = JStr (case thread_id payload of Given t \<Rightarrow> t | Null \<Rightarrow> '''' | Undefined \<Rightarrow> '''')
   \<and> get_prop (sendChatMessageToAI (always (Rejected err)) payload) ''thread_id'' \<noteq> JUndefined
   \<and> get_prop (sendChatMessageToAI (always (Rejected err)) payload) ''response'' = JStr ''''"
  by (simp add: sendChatMessageToAI_def always_def Let_def split: nullable.splits)

text \<open>
  C10. Whenever the transport yields a response, the result of \<open>sendChatMessageToAI\<close>
  has \<open>success = true\<close>, whatever the decoded body is, a body with its own \<open>success\<close>
  included.
\<close>

theorem chat_success_always_true:
  "get_prop (sendChatMessageToAI (always (Resolved data)) payload) ''success'' = JBool True"
  by (simp add: sendChatMessageToAI_def always_def map_of_set_prop)


section \<open>Properties of the media viewer\<close>

text \<open>
  C4. For a pointer move handled while dragging, with the window measured from the
  modal as \<open>rect\<close> (so within the \<open>maxWidth\<close> and \<open>maxHeight\<close> of the modal's style) in
  a viewport \<open>W\<close> by \<open>H\<close>, the stored position is the pointer minus the recorded
  offset, clamped component-wise, and satisfies \<open>0 \<le> x \<le> W - w\<close> and
  \<open>0 \<le> y \<le> H - h\<close>.
\<close>

theorem drag_position_clamped:
  assumes "isDragging s" and "modalRect b = Some rect"
    and "0 \<le> innerWidth b" and "0 \<le> innerHeight b"
    and "width rect \<le> maxWidth b" and "height rect \<le> maxHeight b"
  shows "position (handleMouseMove b e s)
           = \<lparr>px = max 0 (min (clientX e - px (dragStart s)) (innerWidth b - width rect)),
              py = max 0 (min (clientY e - py (dragStart s)) (innerHeight b - height rect))\<rparr>
       \<and> 0 \<le> px (position (handleMouseMove b e s))
       \<and> px (position (handleMouseMove b e s)) \<le> innerWidth b - width rect
       \<and> 0 \<le> py (position (handleMouseMove b e s))
       \<and> py (position (handleMouseMove b e s)) \<le> innerHeight b - height rect"
proof -
  have w: "width rect \<le> innerWidth b"
    using assms(3,5) by (simp add: maxWidth_def)
  have h: "height rect \<le> innerHeight b"
    using assms(4,6) by (simp add: maxHeight_def)
  show ?thesis
    using assms(1,2) w h by (simp add: handleMouseMove_def Let_def)
qed

text \<open>
  C4 after an open and a press on the window chrome at (130, 110), in a 1000 by 800
  viewport with the modal measured as 800 by 600: a move to (1000, -50) stores the
  position (200, 0).
\<close>

theorem drag_position_clamped_witness:
  "isDragging
     (handleMouseDown
        \<lparr>clientX = 130, clientY = 110, inContent = False, inButton = False,
         inResizeHandle = False, inModal = True\<rparr>
        (handleOpenModal \<lparr>innerWidth = 1000, innerHeight = 800, modalRect = None\<rparr> initial))
   \<and> modalRect \<lparr>innerWidth = 1000, innerHeight = 800,
                modalRect = Some \<lparr>width = 800, height = 600\<rparr>\<rparr>
       = Some \<lparr>width = 800, height = 600\<rparr>
   \<and> 0 \<le> innerWidth \<lparr>innerWidth = 1000, innerHeight = 800,
                        modalRect = Some \<lparr>width = 800, height = 600\<rparr>\<rparr>
   \<and> 0 \<le> innerHeight \<lparr>innerWidth = 1000, innerHeight = 800,
                         modalRect = Some \<lparr>width = 800, height = 600\<rparr>\<rparr>
   \<and> width \<lparr>width = 800, height = 600\<rparr>
       \<le> maxWidth \<lparr>innerWidth = 1000, innerHeight = 800,
                    modalRect = Some \<lparr>width = 800, height = 600\<rparr>\<rparr>
   \<and> height \<lparr>width = 800, height = 600\<rparr>
       \<le> maxHeight \<lparr>innerWidth = 1000, innerHeight = 800,
                     modalRect = Some \<lparr>width = 800, height = 600\<rparr>\<rparr>
   \<and> position
       (handleMouseMove
          \<lparr>innerWidth = 1000, innerHeight = 800, modalRect = Some \<lparr>width = 800, height = 600\<rparr>\<rparr>
          \<lparr>clientX = 1000, clientY = - 50, inContent = False, inButton = False,
           inResizeHandle = False, inModal = False\<rparr>
          (handleMouseDown
             \<lparr>clientX = 130, clientY = 110, inContent = False, inButton = False,
              inResizeHandle = False, inModal = True\<rparr>
             (handleOpenModal \<lparr>innerWidth = 1000, innerHeight = 800, modalRect = None\<rparr> initial)))
     = \<lparr>px = 200, py = 0\<rparr>"
  using drag_position_clamped
    [of "handleMouseDown
           \<lparr>clientX = 130, clientY = 110, inContent = False, inButton = False,
            inResizeHandle = False, inModal = True\<rparr>
           (handleOpenModal \<lparr>innerWidth = 1000, innerHeight = 800, modalRect = None\<rparr> initial)"
        "\<lparr>innerWidth = 1000, innerHeight = 800, modalRect = Some \<lparr>width = 800, height = 600\<rparr>\<rparr>"
        "\<lparr>width = 800, height = 600\<rparr>"
        "\<lparr>clientX = 1000, clientY = - 50, inContent = False, inButton = False,
          inResizeHandle = False, inModal = False\<rparr>"]
  by (simp add: handleMouseDown_def handleOpenModal_def initial_def maxWidth_def maxHeight_def)

lemma size_ok_dispatch: "size_ok s \<Longrightarrow> size_ok (dispatch m ev s)"
  by (cases ev)
     (auto simp: size_ok_def handleOpenModal_def handleCloseModal_def handleClickOutside_def
        handleMouseDown_def handleMouseMove_def handleMouseUp_def handleResizeMouseDown_def
        onError_def onLoadEmpty_def Let_def split: option.splits rendered.splits)

lemma size_ok_run: "size_ok s \<Longrightarrow> size_ok (run m evs s)"
  by (induction evs arbitrary: s) (auto simp: size_ok_dispatch)

text \<open>
  C5. After any sequence of events from the initial state (so in the initial state,
  after every open and after every resize move) the size has width at least 300 and
  height at least 200. And from the size 800 by 600, not dragging, a press on the
  resize handle followed by a move whose pointer is 1000 less in both coordinates
  gives exactly the size 300 by 200.
\<close>

theorem size_lower_bound:
  "300 \<le> width (size_st (run m evs initial)) \<and> 200 \<le> height (size_st (run m evs initial))
   \<and> (size_st s = \<lparr>width = 800, height = 600\<rparr> \<and> \<not> isDragging s
        \<and> clientX e' - clientX e = - 1000 \<and> clientY e' - clientY e = - 1000 \<longrightarrow>
      size_st (handleMouseMove b e' (handleResizeMouseDown e s)) = \<lparr>width = 300, height = 200\<rparr>)"
proof -
  have "size_ok initial"
    by (simp add: size_ok_def initial_def)
  then have "size_ok (run m evs initial)"
    by (rule size_ok_run)
  then show ?thesis
    by (auto simp: size_ok_def handleMouseMove_def handleResizeMouseDown_def Let_def)
qed

text \<open>
  C5 on the run open, press on the handle at (900, 700), move to (-100, -300): the
  state after the open has the size 800 by 600 and is not dragging, and the move
  leaves the size 300 by 200.
\<close>

theorem size_lower_bound_witness:
  "size_st (handleOpenModal \<lparr>innerWidth = 1000, innerHeight = 800, modalRect = None\<rparr> initial)
     = \<lparr>width = 800, height = 600\<rparr>
   \<and> \<not> isDragging (handleOpenModal \<lparr>innerWidth = 1000, innerHeight = 800, modalRect = None\<rparr> initial)
   \<and> size_st
       (handleMouseMove
          \<lparr>innerWidth = 1000, innerHeight = 800, modalRect = Some \<lparr>width = 800, height = 600\<rparr>\<rparr>
          \<lparr>clientX = - 100, clientY = - 300, inContent = False, inButton = False,
           inResizeHandle = False, inModal = False\<rparr>
          (handleResizeMouseDown
             \<lparr>clientX = 900, clientY = 700, inContent = False, inButton = False,
              inResizeHandle = True, inModal = True\<rparr>
             (handleOpenModal \<lparr>innerWidth = 1000, innerHeight = 800, modalRect = None\<rparr> initial)))
     = \<lparr>width = 300, height = 200\<rparr>
   \<and> 300 \<le> width (size_st (run \<lparr>path = Some ''a.png'', mimetype = None, mtype = None,
                                    originalname = None\<rparr>
                               [OpenClick \<lparr>innerWidth = 1000, innerHeight = 800, modalRect = None\<rparr>]
                               initial))"
  using size_lower_bound
    [of "\<lparr>path = Some ''a.png'', mimetype = None, mtype = None, originalname = None\<rparr>"
        "[OpenClick \<lparr>innerWidth = 1000, innerHeight = 800, modalRect = None\<rparr>]"
        "handleOpenModal \<lparr>innerWidth = 1000, innerHeight = 800, modalRect = None\<rparr> initial"
        "\<lparr>clientX = - 100, clientY = - 300, inContent = False, inButton = False,
          inResizeHandle = False, inModal = False\<rparr>"
        "\<lparr>clientX = 900, clientY = 700, inContent = False, inButton = False,
          inResizeHandle = True, inModal = True\<rparr>"
        "\<lparr>innerWidth = 1000, innerHeight = 800, modalRect = Some \<lparr>width = 800, height = 600\<rparr>\<rparr>"]
  by (simp add: handleOpenModal_def initial_def)

text \<open>
  C6. For a descriptor whose path is \<open>https://www.youtube.com/watch?v=ABC123\<close>,
  whatever its other properties, \<open>resolveMediaUrl\<close> returns
  \<open>https://www.youtube.com/embed/ABC123\<close>.
\<close>

theorem resolve_youtube_watch_url:
  "resolveMediaUrl (m\<lparr>path := Some ''https://www.youtube.com/watch?v=ABC123''\<rparr>)
     = Some ''https://www.youtube.com/embed/ABC123''"
  by (simp add: resolveMediaUrl_def match_here_def try_alt_def)

lemma starts_with_append: "starts_with (p @ s) p"
  by (induction p) auto

lemma yt_match_nonempty: "yt_match p = Some g \<Longrightarrow> p \<noteq> []"
  by (auto simp: match_here_def try_alt_def)

lemma embed_includes:
  "includes_str (''https://www.youtube.com/embed/'' @ g) ''youtube.com/embed/''"
  using starts_with_append [of "''youtube.com/embed/''" g] by simp

lemma yt_match_isYouTube: "path m = Some p \<Longrightarrow> yt_match p = Some g \<Longrightarrow> isYouTube m"
  using embed_includes [of g] yt_match_nonempty [of p g]
  by (simp add: isYouTube_def resolveMediaUrl_def del: includes_str.simps starts_with.simps)

text \<open>
  C7. The strategy is chosen by the first test that holds, in this order. A descriptor
  whose path matches the YouTube watch or short-link pattern is rendered as the
  YouTube frame whatever its mimetype and type are; otherwise, when the URL is not a
  YouTube embed, a website descriptor is rendered as the website frame whatever its
  mimetype is; then come, each only when every earlier test failed, the image, the
  video, the PDF, the word-processor document link and, last, the generic link.
\<close>

theorem render_strategy_order:
  "(path m = Some p \<and> yt_match p \<noteq> None \<longrightarrow>
      renderMedia m s = YouTubeFrame (resolveMediaUrl m))
   \<and> (\<not> isYouTube m \<and> isWebsite m \<longrightarrow>
      renderMedia m s = WebsiteFrame (resolveMediaUrl m) (iframeError s))
   \<and> (\<not> isYouTube m \<and> \<not> isWebsite m \<and> mimetype_startsWith m ''image/'' \<longrightarrow>
      renderMedia m s = Image (resolveMediaUrl m) (originalname_or m ''Image''))
   \<and> (\<not> isYouTube m \<and> \<not> isWebsite m \<and> \<not> mimetype_startsWith m ''image/''
        \<and> mimetype_startsWith m ''video/'' \<longrightarrow>
      renderMedia m s = Video (resolveMediaUrl m))
   \<and> (\<not> isYouTube m \<and> \<not> isWebsite m \<and> \<not> mimetype_startsWith m ''image/''
        \<and> \<not> mimetype_startsWith m ''video/'' \<and> mimetype_startsWith m ''application/pdf'' \<longrightarrow>
      renderMedia m s = PdfEmbed (resolveMediaUrl m))
   \<and> (\<not> isYouTube m \<and> \<not> isWebsite m \<and> \<not> mimetype_startsWith m ''image/''
        \<and> \<not> mimetype_startsWith m ''video/'' \<and> \<not> mimetype_startsWith m ''application/pdf''
        \<and> (mimetype_startsWith m ''application/msword''
             \<or> mimetype_startsWith m ''application/vnd.openxmlformats-officedocument'') \<longrightarrow>
      renderMedia m s = DocumentLink (resolveMediaUrl m) (originalname_or m ''Download Document''))
   \<and> (\<not> isYouTube m \<and> \<not> isWebsite m \<and> \<not> mimetype_startsWith m ''image/''
        \<and> \<not> mimetype_startsWith m ''video/'' \<and> \<not> mimetype_startsWith m ''application/pdf''
        \<and> \<not> mimetype_startsWith m ''application/msword''
        \<and> \<not> mimetype_startsWith m ''application/vnd.openxmlformats-officedocument'' \<longrightarrow>
      renderMedia m s = MediaLink (resolveMediaUrl m) (originalname_or m ''Download Media''))"
proof -
  have yt: "path m = Some p \<and> yt_match p \<noteq> None \<longrightarrow> isYouTube m"
    using yt_match_isYouTube [of m p] by auto
  show ?thesis
    using yt by (simp add: renderMedia_def Let_def del: starts_with.simps)
qed


text \<open>
  C7 at three descriptors: a short link that also declares an image mimetype is
  rendered as the YouTube frame; a descriptor of type \<open>url\<close> that also declares an
  image mimetype is rendered as the website frame; an image that is neither is
  rendered as the image.
\<close>

theorem render_strategy_order_witness:
  "path \<lparr>path = Some ''https://youtu.be/xyz?t=3'', mimetype = Some ''image/png'',
         mtype = None, originalname = None\<rparr> = Some ''https://youtu.be/xyz?t=3''
   \<and> yt_match ''https://youtu.be/xyz?t=3'' \<noteq> None
   \<and> renderMedia \<lparr>path = Some ''https://youtu.be/xyz?t=3'', mimetype = Some ''image/png'',
                   mtype = None, originalname = None\<rparr> initial
       = YouTubeFrame (Some ''https://www.youtube.com/embed/xyz?t=3'')
   \<and> \<not> isYouTube \<lparr>path = Some ''https://example.com/pic.png'', mimetype = Some ''image/png'',
                     mtype = Some ''url'', originalname = None\<rparr>
   \<and> isWebsite \<lparr>path = Some ''https://example.com/pic.png'', mimetype = Some ''image/png'',
                 mtype = Some ''url'', originalname = None\<rparr>
   \<and> renderMedia \<lparr>path = Some ''https://example.com/pic.png'', mimetype = Some ''image/png'',
                   mtype = Some ''url'', originalname = None\<rparr> initial
       = WebsiteFrame (Some ''https://example.com/pic.png'') False
   \<and> \<not> isWebsite \<lparr>path = Some ''https://example.com/pic.png'', mimetype = Some ''image/png'',
                     mtype = None, originalname = None\<rparr>
   \<and> mimetype_startsWith \<lparr>path = Some ''https://example.com/pic.png'',
                           mimetype = Some ''image/png'', mtype = None, originalname = None\<rparr>
        ''image/''
   \<and> renderMedia \<lparr>path = Some ''https://example.com/pic.png'', mimetype = Some ''image/png'',
                   mtype = None, originalname = None\<rparr> initial
       = Image (Some ''https://example.com/pic.png'') ''Image''"
  using
    render_strategy_order
      [of "\<lparr>path = Some ''https://youtu.be/xyz?t=3'', mimetype = Some ''image/png'',
            mtype = None, originalname = None\<rparr>"
          "''https://youtu.be/xyz?t=3''" initial]
    render_strategy_order
      [of "\<lparr>path = Some ''https://example.com/pic.png'', mimetype = Some ''image/png'',
            mtype = Some ''url'', originalname = None\<rparr>"
          "''https://example.com/pic.png''" initial]
    render_strategy_order
      [of "\<lparr>path = Some ''https://example.com/pic.png'', mimetype = Some ''image/png'',
            mtype = None, originalname = None\<rparr>"
          "''https://example.com/pic.png''" initial]
  by (simp add: isYouTube_def isWebsite_def mimetype_startsWith_def originalname_or_def
      resolveMediaUrl_def match_here_def try_alt_def initial_def)

text \<open>
  C8. When the media descriptor is absent, or its path is absent or the empty string,
  the component returns null, whatever the label and the state: nothing is rendered.
\<close>

theorem no_path_renders_nothing:
  "MediaDisplay None label s = None
   \<and> MediaDisplay (Some (m\<lparr>path := None\<rparr>)) label s = None
   \<and> MediaDisplay (Some (m\<lparr>path := Some ''''\<rparr>)) label s = None"
  by (simp add: MediaDisplay_def)

text \<open>
  C9, as amended. An open action in any state sets the size to 800 by 600 and the
  position to an eighth of the viewport in each direction, and clears the error
  message held in \<open>error\<close>. So does the second of two opens, whatever events come
  between them and whatever the state before the first.
\<close>

theorem open_resets_geometry:
  "size_st (handleOpenModal b s) = \<lparr>width = 800, height = 600\<rparr>
   \<and> position (handleOpenModal b s) = \<lparr>px = innerWidth b / 8, py = innerHeight b / 8\<rparr>
   \<and> error (handleOpenModal b s) = None
   \<and> size_st (dispatch m (OpenClick b2) (run m evs (dispatch m (OpenClick b1) s0)))
       = \<lparr>width = 800, height = 600\<rparr>
   \<and> position (dispatch m (OpenClick b2) (run m evs (dispatch m (OpenClick b1) s0)))
       = \<lparr>px = innerWidth b2 / 8, py = innerHeight b2 / 8\<rparr>
   \<and> error (dispatch m (OpenClick b2) (run m evs (dispatch m (OpenClick b1) s0))) = None"
  by (simp add: handleOpenModal_def)

text \<open>
  C9 as stated fails for the other error state, \<open>iframeError\<close>: for a website
  descriptor, after an open, a frame that loaded empty, a close and a second open,
  the flag is still set and the frame is rendered with its refusal notice.
\<close>

theorem open_resets_geometry_counterexample:
  "iframeError
     (run \<lparr>path = Some ''https://example.com'', mimetype = Some ''text/url'',
           mtype = None, originalname = None\<rparr>
        [OpenClick \<lparr>innerWidth = 1000, innerHeight = 800, modalRect = None\<rparr>,
         FrameLoadedEmpty,
         CloseClick,
         OpenClick \<lparr>innerWidth = 1000, innerHeight = 800, modalRect = None\<rparr>]
        initial)
   \<and> renderMedia
       \<lparr>path = Some ''https://example.com'', mimetype = Some ''text/url'',
        mtype = None, originalname = None\<rparr>
       (run \<lparr>path = Some ''https://example.com'', mimetype = Some ''text/url'',
             mtype = None, originalname = None\<rparr>
          [OpenClick \<lparr>innerWidth = 1000, innerHeight = 800, modalRect = None\<rparr>,
           FrameLoadedEmpty,
           CloseClick,
           OpenClick \<lparr>innerWidth = 1000, innerHeight = 800, modalRect = None\<rparr>]
          initial)
     = WebsiteFrame (Some ''https://example.com'') True"
  by (simp add: handleOpenModal_def handleCloseModal_def onLoadEmpty_def renderMedia_def
      isYouTube_def isWebsite_def resolveMediaUrl_def match_here_def try_alt_def initial_def)

end
